theory Spec2Isabelle
  imports Complex_Main
begin

section \<open>The Shopee crawler (crawler.ts): JavaScript values\<close>

text \<open>
  A JavaScript string is a sequence of UTF-16 code units. Every character class the
  crawler tests (\<^verbatim>\<open>a-z\<close>, \<^verbatim>\<open>0-9\<close>, Hangul U+AC00..U+D7A3, Thai U+0E01..U+0E59,
  white space) lies in the basic plane, so a code unit is modelled by its number and
  \<open>length\<close>, \<open>take\<close> and \<open>drop\<close> count what \<^verbatim>\<open>length\<close> and \<^verbatim>\<open>substring\<close> count.
\<close>

type_synonym jsstring = "nat list"

definition js :: "string \<Rightarrow> jsstring" where
  "js s = map of_char s"

text \<open>
  A JavaScript number is modelled as \<open>NaN\<close> or an exact real: the rounding of IEEE
  doubles and the infinities are left out. Comparisons with \<open>NaN\<close> are false and
  \<open>NaN\<close> and \<open>0\<close> are the falsy numbers, as in the language.
\<close>

datatype jsnum = NaN | Num real

fun truthy :: "jsnum \<Rightarrow> bool" where
  "truthy NaN = False"
| "truthy (Num x) = (x \<noteq> 0)"

fun js_lt :: "jsnum \<Rightarrow> jsnum \<Rightarrow> bool" where
  "js_lt (Num x) (Num y) = (x < y)"
| "js_lt _ _ = False"

fun js_le :: "jsnum \<Rightarrow> jsnum \<Rightarrow> bool" where
  "js_le (Num x) (Num y) = (x \<le> y)"
| "js_le _ _ = False"

definition js_gt :: "jsnum \<Rightarrow> jsnum \<Rightarrow> bool" where
  "js_gt a b = js_lt b a"

definition js_ge :: "jsnum \<Rightarrow> jsnum \<Rightarrow> bool" where
  "js_ge a b = js_le b a"

fun js_times :: "jsnum \<Rightarrow> real \<Rightarrow> jsnum" where
  "js_times NaN k = NaN"
| "js_times (Num x) k = Num (x * k)"

text \<open>\<^verbatim>\<open>Math.round\<close>: the nearest integer, a half rounded up.\<close>

fun Math_round :: "jsnum \<Rightarrow> jsnum" where
  "Math_round NaN = NaN"
| "Math_round (Num x) = Num (of_int \<lfloor>x + 1 / 2\<rfloor>)"

text \<open>\<^verbatim>\<open>a || b\<close> on numbers.\<close>

definition num_or :: "jsnum \<Rightarrow> jsnum \<Rightarrow> jsnum" where
  "num_or a b = (if truthy a then a else b)"

subsection \<open>Character classes\<close>

definition is_digit :: "nat \<Rightarrow> bool" where
  "is_digit c = (48 \<le> c \<and> c \<le> 57)"

text \<open>The class \<^verbatim>\<open>\s\<close> of a regular expression (white space and line terminators).\<close>

definition is_space :: "nat \<Rightarrow> bool" where
  "is_space c = ((9 \<le> c \<and> c \<le> 13) \<or> c = 32 \<or> c = 160 \<or> c = 5760
      \<or> (8192 \<le> c \<and> c \<le> 8202) \<or> c = 8232 \<or> c = 8233 \<or> c = 8239
      \<or> c = 8287 \<or> c = 12288 \<or> c = 65279)"

definition is_lower_latin :: "nat \<Rightarrow> bool" where
  "is_lower_latin c = (97 \<le> c \<and> c \<le> 122)"

definition is_hangul :: "nat \<Rightarrow> bool" where
  "is_hangul c = (44032 \<le> c \<and> c \<le> 55203)"

definition is_thai :: "nat \<Rightarrow> bool" where
  "is_thai c = (3585 \<le> c \<and> c \<le> 3673)"

definition hyphen :: nat where
  "hyphen = 45"

subsection \<open>Decimal rendering of a non-negative integer\<close>

text \<open>
  The template literal renders \<^verbatim>\<open>Date.now()\<close>, an integer count of milliseconds, in
  decimal. The clock is taken to read a time not before 1970, so the count is a
  natural number.
\<close>

fun digits_of :: "nat \<Rightarrow> jsstring" where
  "digits_of n = (if n < 10 then [48 + n] else digits_of (n div 10) @ [48 + n mod 10])"

declare digits_of.simps [simp del]

definition digits_val :: "jsstring \<Rightarrow> nat" where
  "digits_val ds = foldl (\<lambda>a d. 10 * a + (d - 48)) 0 ds"

section \<open>createSlug\<close>

text \<open>
  \<^verbatim>\<open>title.toLowerCase().replace(/[^a-z0-9\<dots>\s-]/g, '').replace(/\s+/g, '-')
       .substring(0, 80) + `-${Date.now()}`\<close>

  \<^verbatim>\<open>toLowerCase\<close> is the runtime's Unicode case mapping; it is a parameter \<open>lower\<close> of
  the model. The clock reading \<^verbatim>\<open>Date.now()\<close> is the parameter \<open>now\<close>.
\<close>

definition slug_keep :: "nat \<Rightarrow> bool" where
  "slug_keep c = (is_lower_latin c \<or> is_digit c \<or> is_hangul c \<or> is_thai c
      \<or> is_space c \<or> c = hyphen)"

function collapse_spaces :: "jsstring \<Rightarrow> jsstring" where
  "collapse_spaces [] = []"
| "collapse_spaces (c # cs) =
     (if is_space c then hyphen # collapse_spaces (dropWhile is_space cs)
      else c # collapse_spaces cs)"
  by pat_completeness auto
termination
  by (relation "measure length") (auto simp: length_dropWhile_le less_Suc_eq_le)

definition discriminator :: "nat \<Rightarrow> jsstring" where
  "discriminator now = hyphen # digits_of now"

definition createSlug :: "(jsstring \<Rightarrow> jsstring) \<Rightarrow> nat \<Rightarrow> jsstring \<Rightarrow> jsstring" where
  "createSlug lower now title =
     take 80 (collapse_spaces (filter slug_keep (lower title))) @ discriminator now"

text \<open>The characters a slug may hold: the letters and digits the filter keeps, and the hyphen.\<close>

definition slug_char :: "nat \<Rightarrow> bool" where
  "slug_char c = (is_lower_latin c \<or> is_digit c \<or> is_hangul c \<or> is_thai c \<or> c = hyphen)"

text \<open>The case mapping on texts of ASCII letters, for the examples.\<close>

definition ascii_lower :: "jsstring \<Rightarrow> jsstring" where
  "ascii_lower s = map (\<lambda>c. if 65 \<le> c \<and> c \<le> 90 then c + 32 else c) s"

section \<open>Text patterns of the field extractor\<close>

text \<open>
  \<^verbatim>\<open>parseFloat\<close> on the texts the extractor hands it. They are runs of digits and dots
  (commas removed), so sign, exponent and leading white space never occur: the result
  is the value of the longest prefix \<^verbatim>\<open>digits[.digits]\<close> or \<^verbatim>\<open>.digits\<close>, and \<open>NaN\<close>
  when that prefix has no digit.
\<close>

definition parseFloat :: "jsstring \<Rightarrow> jsnum" where
  "parseFloat s =
     (let ip = takeWhile is_digit s;
          r = dropWhile is_digit s;
          fp = (case r of [] \<Rightarrow> [] | c # r' \<Rightarrow> if c = 46 then takeWhile is_digit r' else [])
      in if ip = [] \<and> fp = [] then NaN
         else Num (of_nat (digits_val ip) + of_nat (digits_val fp) / 10 ^ length fp))"

text \<open>\<^verbatim>\<open>s.replace(/,/g, '')\<close>\<close>

definition remove_commas :: "jsstring \<Rightarrow> jsstring" where
  "remove_commas s = filter (\<lambda>c. c \<noteq> 44) s"

text \<open>
  \<^verbatim>\<open>s.match(/([C]+)/)\<close> for a character class \<open>C\<close>: the first maximal run of
  characters of the class, or no match.
\<close>

definition first_run :: "(nat \<Rightarrow> bool) \<Rightarrow> jsstring \<Rightarrow> jsstring option" where
  "first_run P s =
     (case dropWhile (\<lambda>c. \<not> P c) s of [] \<Rightarrow> None | c # r \<Rightarrow> Some (takeWhile P (c # r)))"

definition digit_dot :: "nat \<Rightarrow> bool" where
  "digit_dot c = (is_digit c \<or> c = 46)"

definition digit_comma :: "nat \<Rightarrow> bool" where
  "digit_comma c = (is_digit c \<or> c = 44)"

definition digit_comma_dot :: "nat \<Rightarrow> bool" where
  "digit_comma_dot c = (is_digit c \<or> c = 44 \<or> c = 46)"

text \<open>
  Group 1 of the price pattern \<^verbatim>\<open>/B?\s*([\d,]+(?:\.\d{2})?)/\<close> (\<^verbatim>\<open>B\<close> the baht sign):
  the optional sign and white space consume no digit or comma, so the group starts at
  the first digit or comma of the text, takes the maximal run, and then a dot with
  two digits when they follow.
\<close>

definition price_match :: "jsstring \<Rightarrow> jsstring option" where
  "price_match s =
     (case dropWhile (\<lambda>c. \<not> digit_comma c) s of
        [] \<Rightarrow> None
      | c # r \<Rightarrow>
          Some (takeWhile digit_comma (c # r) @
            (case dropWhile digit_comma (c # r) of
               d # a # b # _ \<Rightarrow> if d = 46 \<and> is_digit a \<and> is_digit b then [d, a, b] else []
             | _ \<Rightarrow> [])))"

text \<open>\<^verbatim>\<open>s.includes(sub)\<close>\<close>

fun js_includes :: "jsstring \<Rightarrow> jsstring \<Rightarrow> bool" where
  "js_includes [] sub = (sub = [])"
| "js_includes (c # cs) sub = (take (length sub) (c # cs) = sub \<or> js_includes cs sub)"

text \<open>
  The patterns \<^verbatim>\<open>/-i\.(\d+)\.(\d+)/\<close> and \<^verbatim>\<open>/\/product\/(\d+)\/(\d+)/\<close>: a literal
  prefix, digits, a separator, digits. A run of digits that the separator must follow
  is maximal, so matching at one position needs no backtracking; the search takes the
  leftmost position that matches.
\<close>

definition ids_at :: "jsstring \<Rightarrow> nat \<Rightarrow> jsstring \<Rightarrow> (jsstring \<times> jsstring) option" where
  "ids_at pre sep s =
     (if take (length pre) s = pre then
        (let r = drop (length pre) s; a = takeWhile is_digit r in
         (case dropWhile is_digit r of
            [] \<Rightarrow> None
          | c # r2 \<Rightarrow>
              (let b = takeWhile is_digit r2
               in if a \<noteq> [] \<and> c = sep \<and> b \<noteq> [] then Some (a, b) else None)))
      else None)"

fun search_ids :: "jsstring \<Rightarrow> nat \<Rightarrow> jsstring \<Rightarrow> (jsstring \<times> jsstring) option" where
  "search_ids pre sep [] = None"
| "search_ids pre sep (c # cs) =
     (case ids_at pre sep (c # cs) of
        Some r \<Rightarrow> Some r
      | None \<Rightarrow> search_ids pre sep cs)"

text \<open>\<^verbatim>\<open>s.trim()\<close>\<close>

definition trim :: "jsstring \<Rightarrow> jsstring" where
  "trim s = rev (dropWhile is_space (rev (dropWhile is_space s)))"

section \<open>The loaded product page\<close>

text \<open>
  The script that \<^verbatim>\<open>page.evaluate\<close> runs reads the document through
  \<^verbatim>\<open>querySelector\<close>/\<^verbatim>\<open>querySelectorAll\<close> and the location. A loaded page is its
  location and, for each selector the script uses, the \<^verbatim>\<open>textContent\<close> of the matching
  elements in document order. The selectors, in the order of the source:
  title \<^verbatim>\<open>div[class*="product-title"]\<close>, \<^verbatim>\<open>h1[class*="title"]\<close>, \<^verbatim>\<open>span[class*="VhWBwF"]\<close>,
  \<^verbatim>\<open>.product-info span\<close>, \<^verbatim>\<open>div[data-sqe="name"]\<close>, \<^verbatim>\<open>h1\<close>;
  price \<^verbatim>\<open>div[class*="pqTWkA"]\<close>, \<^verbatim>\<open>div[class*="price"]\<close>, \<^verbatim>\<open>span[class*="price"]\<close>,
  \<^verbatim>\<open>div[aria-label*=B]\<close> (the baht sign);
  rating \<^verbatim>\<open>div[class*="rating"] span\<close>, \<^verbatim>\<open>div[class*="star"] + span\<close>, \<^verbatim>\<open>span[class*="rating"]\<close>;
  reviews \<^verbatim>\<open>div[class*="rating-count"]\<close>, \<^verbatim>\<open>span[class*="review"]\<close>, \<^verbatim>\<open>a[href*="reviews"]\<close>;
  sold \<^verbatim>\<open>div[class*="sold"]\<close>, \<^verbatim>\<open>span[class*="sold"]\<close>, \<^verbatim>\<open>div[class*="historical-sold"]\<close>.
\<close>

datatype selector =
    Div_product_title | H1_title | Span_VhWBwF | Product_info_span | Div_sqe_name | H1
  | Div_pqTWkA | Div_price | Span_price | Div_aria_baht
  | Div_rating_span | Div_star_next_span | Span_rating
  | Div_rating_count | Span_review | A_reviews
  | Div_sold | Span_sold | Div_historical_sold

record page =
  href :: jsstring
  pathname :: jsstring
  querySelectorAll :: "selector \<Rightarrow> jsstring list"

definition querySelector :: "page \<Rightarrow> selector \<Rightarrow> jsstring option" where
  "querySelector pg sel = (case querySelectorAll pg sel of [] \<Rightarrow> None | t # _ \<Rightarrow> Some t)"

definition titleSelectors :: "selector list" where
  "titleSelectors = [Div_product_title, H1_title, Span_VhWBwF, Product_info_span, Div_sqe_name, H1]"

definition priceSelectors :: "selector list" where
  "priceSelectors = [Div_pqTWkA, Div_price, Span_price, Div_aria_baht]"

definition ratingSelectors :: "selector list" where
  "ratingSelectors = [Div_rating_span, Div_star_next_span, Span_rating]"

definition reviewSelectors :: "selector list" where
  "reviewSelectors = [Div_rating_count, Span_review, A_reviews]"

definition soldSelectors :: "selector list" where
  "soldSelectors = [Div_sold, Span_sold, Div_historical_sold]"

section \<open>The field extractor: the script of extractProductDetails\<close>

text \<open>
  The fields modelled are the ones the record's identity, price, rating and volume
  come from. The description, the image and video addresses, the discount, the shop
  name, the category and the shipping flag are read from the document by rules of
  their own and copied through; they take no part in any decision below and are left
  out of the records.
\<close>

text \<open>Shop and item id, from the location.\<close>

definition location_ids :: "page \<Rightarrow> jsstring \<times> jsstring" where
  "location_ids pg =
     (case search_ids (js ''-i.'') 46 (href pg) of
        Some urlMatch \<Rightarrow> urlMatch
      | None \<Rightarrow>
          (case search_ids (js ''/product/'') 47 (pathname pg) of
             Some productMatch \<Rightarrow> productMatch
           | None \<Rightarrow> ([], [])))"

text \<open>Title: the first selector whose first element has a non-blank text.\<close>

fun title_loop :: "page \<Rightarrow> selector list \<Rightarrow> jsstring" where
  "title_loop pg [] = []"
| "title_loop pg (sel # sels) =
     (case querySelector pg sel of
        None \<Rightarrow> title_loop pg sels
      | Some t \<Rightarrow> if trim t \<noteq> [] then trim t else title_loop pg sels)"

text \<open>
  Price and original price: \<^verbatim>\<open>price\<close> and \<^verbatim>\<open>originalPrice\<close> start \<^verbatim>\<open>null\<close>; each
  element whose text matches updates them; the selectors after the first that leaves
  a truthy price are not tried.
\<close>

fun truthy_opt :: "jsnum option \<Rightarrow> bool" where
  "truthy_opt None = False"
| "truthy_opt (Some n) = truthy n"

text \<open>A number or \<^verbatim>\<open>null\<close> as an operand of a comparison: \<^verbatim>\<open>null\<close> counts as 0.\<close>

fun to_number :: "jsnum option \<Rightarrow> jsnum" where
  "to_number None = Num 0"
| "to_number (Some n) = n"

fun price_step :: "jsnum option \<times> jsnum option \<Rightarrow> jsstring \<Rightarrow> jsnum option \<times> jsnum option" where
  "price_step (price, originalPrice) t =
     (case price_match t of
        None \<Rightarrow> (price, originalPrice)
      | Some m \<Rightarrow>
          (let v = parseFloat (remove_commas m)
           in if \<not> truthy_opt price \<or> js_lt v (to_number price)
              then (Some v, if truthy_opt price then price else originalPrice)
              else if js_gt v (to_number price) then (price, Some v)
              else (price, originalPrice)))"

fun price_loop :: "page \<Rightarrow> selector list \<Rightarrow> jsnum option \<times> jsnum option
    \<Rightarrow> jsnum option \<times> jsnum option" where
  "price_loop pg [] st = st"
| "price_loop pg (sel # sels) st =
     (let st' = foldl price_step st (querySelectorAll pg sel)
      in if truthy_opt (fst st') then st' else price_loop pg sels st')"

text \<open>
  The states of the price loop in which an original price, when set, comes with a
  smaller price that is not 0; and the texts whose price, when one matches, does not
  parse to 0.
\<close>

fun price_ok :: "jsnum option \<times> jsnum option \<Rightarrow> bool" where
  "price_ok (Some (Num x), Some (Num y)) = (x \<noteq> 0 \<and> x < y)"
| "price_ok (Some (Num x), None) = (x \<noteq> 0)"
| "price_ok (Some NaN, None) = True"
| "price_ok (None, None) = True"
| "price_ok _ = False"

definition parses_nonzero :: "jsstring \<Rightarrow> bool" where
  "parses_nonzero t =
     (case price_match t of
        None \<Rightarrow> True
      | Some m \<Rightarrow> parseFloat (remove_commas m) \<noteq> Num 0)"

text \<open>
  Rating: starts 0; each selector whose first element holds a run of digits and dots
  assigns the parsed run, and the loop stops at a value between 1 and 5.
\<close>

fun rating_loop :: "page \<Rightarrow> selector list \<Rightarrow> jsnum \<Rightarrow> jsnum" where
  "rating_loop pg [] rating = rating"
| "rating_loop pg (sel # sels) rating =
     (case querySelector pg sel of
        None \<Rightarrow> rating_loop pg sels rating
      | Some t \<Rightarrow>
          (case first_run digit_dot t of
             None \<Rightarrow> rating_loop pg sels rating
           | Some m \<Rightarrow>
               (let r = parseFloat m
                in if js_ge r (Num 1) \<and> js_le r (Num 5) then r
                   else rating_loop pg sels r)))"

text \<open>
  Review count, pattern \<^verbatim>\<open>/([\d,.]+)k?/i\<close>: the run is parsed without its commas,
  multiplied by 1000 when the lower-cased text holds a \<^verbatim>\<open>k\<close> anywhere, and rounded;
  the loop stops at a positive count.
\<close>

fun review_loop :: "(jsstring \<Rightarrow> jsstring) \<Rightarrow> page \<Rightarrow> selector list \<Rightarrow> jsnum \<Rightarrow> jsnum" where
  "review_loop lower pg [] reviewCount = reviewCount"
| "review_loop lower pg (sel # sels) reviewCount =
     (case querySelector pg sel of
        None \<Rightarrow> review_loop lower pg sels reviewCount
      | Some t \<Rightarrow>
          (case first_run digit_comma_dot t of
             None \<Rightarrow> review_loop lower pg sels reviewCount
           | Some m \<Rightarrow>
               (let count = parseFloat (remove_commas m);
                    count' = (if js_includes (lower t) [107] then js_times count 1000 else count);
                    rc = Math_round count'
                in if js_gt rc (Num 0) then rc else review_loop lower pg sels rc)))"

text \<open>
  Sold count, pattern \<^verbatim>\<open>/([\d,.]+)\s*(k|U1|U2|U3)?/i\<close> with the Thai words for
  thousand (U1), ten thousand (U2) and hundred thousand (U3). Everything after the run
  is optional, so group 1 is the first maximal run; group 2 is the unit that follows
  the white space after it, when one does. Lower-casing group 2 turns \<^verbatim>\<open>K\<close> into
  \<^verbatim>\<open>k\<close> and leaves the Thai words as they are.
\<close>

definition thai_thousand :: jsstring where
  "thai_thousand = [3614, 3633, 3609]"

definition thai_ten_thousand :: jsstring where
  "thai_ten_thousand = [3627, 3617, 3639, 3656, 3609]"

definition thai_hundred_thousand :: jsstring where
  "thai_hundred_thousand = [3649, 3626, 3609]"

definition sold_unit :: "jsstring \<Rightarrow> jsstring option" where
  "sold_unit rest =
     (let r = dropWhile is_space rest
      in if take 1 r = [107] \<or> take 1 r = [75] then Some [107]
         else if take 3 r = thai_thousand then Some thai_thousand
         else if take 5 r = thai_ten_thousand then Some thai_ten_thousand
         else if take 3 r = thai_hundred_thousand then Some thai_hundred_thousand
         else None)"

definition sold_match :: "jsstring \<Rightarrow> (jsstring \<times> jsstring option) option" where
  "sold_match t =
     (case dropWhile (\<lambda>c. \<not> digit_comma_dot c) t of
        [] \<Rightarrow> None
      | c # r \<Rightarrow>
          Some (takeWhile digit_comma_dot (c # r),
                sold_unit (dropWhile digit_comma_dot (c # r))))"

fun sold_loop :: "page \<Rightarrow> selector list \<Rightarrow> jsnum \<Rightarrow> jsnum" where
  "sold_loop pg [] soldCount = soldCount"
| "sold_loop pg (sel # sels) soldCount =
     (case querySelector pg sel of
        None \<Rightarrow> sold_loop pg sels soldCount
      | Some t \<Rightarrow>
          (case sold_match t of
             None \<Rightarrow> sold_loop pg sels soldCount
           | Some (m, unit) \<Rightarrow>
               (let count = parseFloat (remove_commas m);
                    c1 = (if unit = Some [107] \<or> unit = Some thai_thousand
                          then js_times count 1000 else count);
                    c2 = (if unit = Some thai_ten_thousand then js_times c1 10000 else c1);
                    c3 = (if unit = Some thai_hundred_thousand then js_times c2 100000 else c2);
                    sc = Math_round c3
                in if js_gt sc (Num 0) then sc else sold_loop pg sels sc)))"

text \<open>
  The object the script returns. \<^verbatim>\<open>page.evaluate\<close> hands it to the crawler by value,
  as JSON, which writes a \<open>NaN\<close> number as \<^verbatim>\<open>null\<close>. The comparisons, \<^verbatim>\<open>||\<close>,
  the conditional and \<^verbatim>\<open>?.\<close> that the crawler applies afterwards give for that
  \<^verbatim>\<open>null\<close> what they give for \<open>NaN\<close>, so the records keep the constructor \<open>NaN\<close> for
  a number that arrived as \<^verbatim>\<open>null\<close>. The one operation that tells the two apart,
  \<^verbatim>\<open>toLocaleString\<close> in the progress lines of \<^verbatim>\<open>main\<close>, is modelled there.
\<close>

record productData =
  pd_itemId :: jsstring
  pd_shopId :: jsstring
  pd_title :: jsstring
  pd_price :: "jsnum option"
  pd_originalPrice :: "jsnum option"
  pd_rating :: jsnum
  pd_reviewCount :: jsnum
  pd_soldCount :: jsnum

definition evaluate_page :: "(jsstring \<Rightarrow> jsstring) \<Rightarrow> page \<Rightarrow> productData" where
  "evaluate_page lower pg =
     \<lparr>pd_itemId = snd (location_ids pg),
      pd_shopId = fst (location_ids pg),
      pd_title = title_loop pg titleSelectors,
      pd_price = fst (price_loop pg priceSelectors (None, None)),
      pd_originalPrice = snd (price_loop pg priceSelectors (None, None)),
      pd_rating = rating_loop pg ratingSelectors (Num 0),
      pd_reviewCount = review_loop lower pg reviewSelectors (Num 0),
      pd_soldCount = sold_loop pg soldSelectors (Num 0)\<rparr>"

section \<open>extractProductDetails\<close>

record ShopeeProduct =
  itemId :: jsstring
  shopId :: jsstring
  title :: jsstring
  slug :: jsstring
  price :: jsnum
  originalPrice :: "jsnum option"
  priceKrw :: "jsnum option"
  rating :: jsnum
  reviewCount :: jsnum
  soldCount :: jsnum
  sourceUrl :: jsstring

definition THB_TO_KRW :: real where
  "THB_TO_KRW = 40"

text \<open>
  What follows the script: \<^verbatim>\<open>null\<close> when the title or the item id is empty, else the
  product. \<open>now\<close> is the clock reading of the \<^verbatim>\<open>createSlug\<close> call.
\<close>

definition build_product :: "(jsstring \<Rightarrow> jsstring) \<Rightarrow> nat \<Rightarrow> jsstring \<Rightarrow> productData
    \<Rightarrow> ShopeeProduct option" where
  "build_product lower now url pd =
     (if pd_title pd = [] \<or> pd_itemId pd = [] then None
      else Some
        \<lparr>itemId = pd_itemId pd,
         shopId = pd_shopId pd,
         title = pd_title pd,
         slug = createSlug lower now (pd_title pd),
         price = num_or (to_number (pd_price pd)) (Num 0),
         originalPrice = pd_originalPrice pd,
         priceKrw = (if truthy_opt (pd_price pd)
                     then Some (Math_round (js_times (to_number (pd_price pd)) THB_TO_KRW))
                     else None),
         rating = pd_rating pd,
         reviewCount = pd_reviewCount pd,
         soldCount = pd_soldCount pd,
         sourceUrl = url\<rparr>)"

text \<open>
  The page is \<open>None\<close> when \<^verbatim>\<open>page.goto\<close> or \<^verbatim>\<open>page.evaluate\<close> throws: the
  function catches the error and returns \<^verbatim>\<open>null\<close>.
\<close>

definition extractProductDetails :: "(jsstring \<Rightarrow> jsstring) \<Rightarrow> nat \<Rightarrow> jsstring \<Rightarrow> page option
    \<Rightarrow> ShopeeProduct option" where
  "extractProductDetails lower now url loaded =
     (case loaded of
        None \<Rightarrow> None
      | Some pg \<Rightarrow> build_product lower now url (evaluate_page lower pg))"

section \<open>saveToSupabase\<close>

text \<open>The columns of the inserted row that depend on the product.\<close>

record ProductInsert =
  ins_title :: jsstring
  ins_slug :: jsstring
  original_price :: jsnum
  price_krw :: "jsnum option"
  source_url :: jsstring
  external_rating :: "jsnum option"
  external_review_count :: jsnum
  purchase_count :: jsnum
  is_featured :: bool
  is_active :: bool

definition product_insert :: "ShopeeProduct \<Rightarrow> ProductInsert" where
  "product_insert product =
     \<lparr>ins_title = title product,
      ins_slug = slug product,
      original_price = price product,
      price_krw = priceKrw product,
      source_url = sourceUrl product,
      external_rating = (if truthy (rating product) then Some (rating product) else None),
      external_review_count = num_or (reviewCount product) (Num 0),
      purchase_count = num_or (soldCount product) (Num 0),
      is_featured = (js_ge (rating product) (Num 4.5) \<and> js_ge (soldCount product) (Num 1000)),
      is_active = True\<rparr>"

text \<open>
  The catalog store answers an insert, given the rows it has taken in this run, with
  the row, with an error and its message, or by throwing.
\<close>

datatype insert_result = Inserted | Rejected jsstring | Threw

type_synonym store = "ProductInsert list \<Rightarrow> ProductInsert \<Rightarrow> insert_result"

definition saveToSupabase :: "store \<Rightarrow> ProductInsert list \<Rightarrow> ShopeeProduct
    \<Rightarrow> bool \<times> ProductInsert list" where
  "saveToSupabase db rows product =
     (case db rows (product_insert product) of
        Inserted \<Rightarrow> (True, rows @ [product_insert product])
      | Rejected msg \<Rightarrow> (False, rows)
      | Threw \<Rightarrow> (False, rows))"

section \<open>extractLinksFromPage and getProductUrls\<close>

text \<open>
  \<^verbatim>\<open>[...new Set(links)]\<close>: a set keeps its elements in the order of their first
  insertion.
\<close>

definition set_spread :: "jsstring list \<Rightarrow> jsstring list" where
  "set_spread links = foldl (\<lambda>acc u. if u \<in> set acc then acc else acc @ [u]) [] links"

definition is_product_link :: "jsstring \<Rightarrow> bool" where
  "is_product_link h = (js_includes h (js ''-i.'') \<and> search_ids (js ''-i.'') 46 h \<noteq> None)"

definition full_url :: "jsstring \<Rightarrow> jsstring" where
  "full_url h = (if take 4 h = js ''http'' then h else js ''https://shopee.co.th'' @ h)"

text \<open>The argument is the \<^verbatim>\<open>href\<close> attribute of every \<^verbatim>\<open>a[href]\<close> element, in order.\<close>

definition extractLinksFromPage :: "jsstring list \<Rightarrow> jsstring list" where
  "extractLinksFromPage anchors = set_spread (map full_url (filter is_product_link anchors))"

text \<open>The five search pages, in order (their labels are only printed).\<close>

definition urlsToTry :: "jsstring list" where
  "urlsToTry =
     [js ''https://shopee.co.th/search?keyword=electronics'',
      js ''https://shopee.co.th/search?keyword=phone'',
      js ''https://shopee.co.th/search?keyword=fashion'',
      js ''https://shopee.co.th/search?keyword=beauty'',
      js ''https://shopee.co.th/search?keyword=appliances'']"

text \<open>
  A listing maps an entry point to the anchors of its page, or to \<open>None\<close> when the
  navigation throws (the error is caught and nothing is added). The loop returns the
  collected addresses and the entry points it visited.
\<close>

type_synonym listing = "jsstring \<Rightarrow> jsstring list option"

definition links_of :: "listing \<Rightarrow> jsstring \<Rightarrow> jsstring list" where
  "links_of web url = (case web url of None \<Rightarrow> [] | Some anchors \<Rightarrow> extractLinksFromPage anchors)"

fun discover_loop :: "listing \<Rightarrow> int \<Rightarrow> jsstring list \<Rightarrow> jsstring list
    \<Rightarrow> jsstring list \<times> jsstring list" where
  "discover_loop web maxProducts [] productUrls = (productUrls, [])"
| "discover_loop web maxProducts (url # rest) productUrls =
     (if maxProducts \<le> int (length productUrls) then (productUrls, [])
      else
        (let urls = links_of web url;
             newUrls = filter (\<lambda>u. u \<notin> set productUrls) urls;
             r = discover_loop web maxProducts rest (productUrls @ newUrls)
         in (fst r, url # snd r)))"

text \<open>\<^verbatim>\<open>xs.slice(0, e)\<close> for an integer \<open>e\<close>: a negative end counts from the end.\<close>

definition slice0 :: "'a list \<Rightarrow> int \<Rightarrow> 'a list" where
  "slice0 xs e = (if e < 0 then take (nat (int (length xs) + e)) xs else take (nat e) xs)"

definition getProductUrls :: "listing \<Rightarrow> int \<Rightarrow> jsstring list" where
  "getProductUrls web maxProducts =
     slice0 (fst (discover_loop web maxProducts urlsToTry [])) maxProducts"

definition visited_entries :: "listing \<Rightarrow> int \<Rightarrow> jsstring list" where
  "visited_entries web maxProducts = snd (discover_loop web maxProducts urlsToTry [])"

text \<open>The number of addresses collected once the first \<open>k\<close> entry points are done.\<close>

definition running_total :: "listing \<Rightarrow> int \<Rightarrow> nat \<Rightarrow> nat" where
  "running_total web maxProducts k =
     length (fst (discover_loop web maxProducts (take k urlsToTry) []))"

section \<open>main\<close>

text \<open>
  The run's surroundings: the listing pages, the product pages by address (\<open>None\<close>
  when opening or reading the page throws), the clock reading while item \<open>i\<close> is
  processed, and the catalog store. \<^verbatim>\<open>maxProducts\<close> is the integer \<^verbatim>\<open>parseInt\<close> read
  (a setting that is no number is left out). The browser is taken to launch. A run
  ends \<open>Fatal\<close> when the store is not configured, \<open>NoUrls\<close> when no address was
  found, and else \<open>Completed\<close> with the two numbers of its last line and the rows the
  store took.
\<close>

record world =
  listing_of :: listing
  product_page :: "jsstring \<Rightarrow> page option"
  clock :: "nat \<Rightarrow> nat"
  db :: store

record config =
  supabase_configured :: bool
  maxProducts :: int

record RunReport =
  attempted :: nat
  succeeded :: nat
  stored :: "ProductInsert list"

datatype run_result = Fatal | NoUrls | Completed RunReport

text \<open>
  The progress lines that \<^verbatim>\<open>main\<close> prints for a product, before it saves it, call
  \<^verbatim>\<open>product.reviewCount.toLocaleString()\<close> and \<^verbatim>\<open>product.soldCount.toLocaleString()\<close>.
  On a count that arrived as \<^verbatim>\<open>null\<close> the call throws; the error is caught by the
  loop's own handler, after the call of \<^verbatim>\<open>saveToSupabase\<close> has been skipped. (The price
  lines use \<^verbatim>\<open>?.\<close> and the rating is only interpolated: they never throw.)
\<close>

fun arrives_null :: "jsnum \<Rightarrow> bool" where
  "arrives_null NaN = True"
| "arrives_null (Num x) = False"

definition log_throws :: "ShopeeProduct \<Rightarrow> bool" where
  "log_throws product = (arrives_null (reviewCount product) \<or> arrives_null (soldCount product))"

fun crawl_items :: "(jsstring \<Rightarrow> jsstring) \<Rightarrow> world \<Rightarrow> nat \<Rightarrow> jsstring list
    \<Rightarrow> ProductInsert list \<times> nat \<Rightarrow> ProductInsert list \<times> nat" where
  "crawl_items lower w i [] st = st"
| "crawl_items lower w i (url # urls) (rows, successCount) =
     (case extractProductDetails lower (clock w i) url (product_page w url) of
        None \<Rightarrow> crawl_items lower w (Suc i) urls (rows, successCount)
      | Some product \<Rightarrow>
          if log_throws product then crawl_items lower w (Suc i) urls (rows, successCount)
          else
            (case saveToSupabase (db w) rows product of
               (saved, rows') \<Rightarrow>
                 crawl_items lower w (Suc i) urls
                   (rows', if saved then successCount + 1 else successCount)))"

definition main :: "(jsstring \<Rightarrow> jsstring) \<Rightarrow> config \<Rightarrow> world \<Rightarrow> run_result" where
  "main lower cfg w =
     (if supabase_configured cfg then
        (let productUrls = getProductUrls (listing_of w) (maxProducts cfg)
         in if productUrls = [] then NoUrls
            else
              (case crawl_items lower w 0 productUrls ([], 0) of
                 (rows, successCount) \<Rightarrow>
                   Completed \<lparr>attempted = length productUrls, succeeded = successCount,
                              stored = rows\<rparr>))
      else Fatal)"

section \<open>Example pages and runs\<close>

text \<open>
  A listing: the first search page links one product three times (once by its full
  address), a page that is no product, and two more products; the second links one of
  these again and a new one; the other three fail to load.
\<close>

definition anchors_c :: "jsstring list" where
  "anchors_c =
     [js ''/Wireless-Earbuds-X1-i.123.456'',
      js ''https://shopee.co.th/Wireless-Earbuds-X1-i.123.456'',
      js ''/cart'',
      js ''/Wireless-Earbuds-X1-i.123.456'',
      js ''/Phone-Case-i.77.8901'',
      js ''/Usb-Cable-i.5.66'']"

definition anchors_d :: "jsstring list" where
  "anchors_d = [js ''/Phone-Case-i.77.8901'', js ''/Desk-Lamp-i.9.10'']"

definition web_c :: listing where
  "web_c url =
     (if url = js ''https://shopee.co.th/search?keyword=electronics'' then Some anchors_c
      else if url = js ''https://shopee.co.th/search?keyword=phone'' then Some anchors_d
      else None)"

definition earbuds_url :: jsstring where
  "earbuds_url = js ''https://shopee.co.th/Wireless-Earbuds-X1-i.123.456''"

text \<open>The baht sign, U+0E3F.\<close>

definition baht :: nat where
  "baht = 3647"

text \<open>
  A product page with a title, a price of 19.99 baht, the rating text and the review
  text of the specification's example, and no element that tells a sold count.
\<close>

definition page_earbuds :: page where
  "page_earbuds =
     \<lparr>href = earbuds_url,
      pathname = js ''/Wireless-Earbuds-X1-i.123.456'',
      querySelectorAll = (\<lambda>sel. case sel of
          H1 \<Rightarrow> [js ''Wireless Earbuds X1'']
        | Div_price \<Rightarrow> [baht # js ''19.99'']
        | Div_rating_span \<Rightarrow> [js ''4.8 out of 5'']
        | Span_review \<Rightarrow> [js ''1,234 ratings'']
        | _ \<Rightarrow> [])\<rparr>"

text \<open>The same location with a price element and no title element.\<close>

definition page_no_title :: page where
  "page_no_title =
     \<lparr>href = earbuds_url,
      pathname = js ''/Wireless-Earbuds-X1-i.123.456'',
      querySelectorAll = (\<lambda>sel. case sel of
          Div_price \<Rightarrow> [baht # js ''199'']
        | _ \<Rightarrow> [])\<rparr>"

text \<open>A page whose only price element reads 0 baht.\<close>

definition page_zero_price :: page where
  "page_zero_price =
     \<lparr>href = earbuds_url,
      pathname = js ''/Wireless-Earbuds-X1-i.123.456'',
      querySelectorAll = (\<lambda>sel. case sel of
          H1 \<Rightarrow> [js ''Wireless Earbuds X1'']
        | Div_price \<Rightarrow> [baht # js ''0'']
        | _ \<Rightarrow> [])\<rparr>"

text \<open>
  A page on which the first rating selector finds the span that counts the ratings,
  and no other rating selector finds an element.
\<close>

definition page_rating_100 :: page where
  "page_rating_100 =
     \<lparr>href = earbuds_url,
      pathname = js ''/Wireless-Earbuds-X1-i.123.456'',
      querySelectorAll = (\<lambda>sel. case sel of
          H1 \<Rightarrow> [js ''Wireless Earbuds X1'']
        | Div_rating_span \<Rightarrow> [js ''100 ratings'']
        | _ \<Rightarrow> [])\<rparr>"

text \<open>
  A page with three price elements in this order: 150 baht, 0 baht (free shipping)
  and 199 baht.
\<close>

definition page_three_prices :: page where
  "page_three_prices =
     \<lparr>href = earbuds_url,
      pathname = js ''/Wireless-Earbuds-X1-i.123.456'',
      querySelectorAll = (\<lambda>sel. case sel of
          H1 \<Rightarrow> [js ''Wireless Earbuds X1'']
        | Div_price \<Rightarrow> [baht # js ''150'', baht # js ''0'', baht # js ''199'']
        | _ \<Rightarrow> [])\<rparr>"

text \<open>
  A page with a title, an item id and a price, whose review element reads
  \<^verbatim>\<open>No reviews yet.\<close>: the only digit, comma or dot of the text is its full stop.
\<close>

definition page_no_reviews :: page where
  "page_no_reviews =
     \<lparr>href = earbuds_url,
      pathname = js ''/Wireless-Earbuds-X1-i.123.456'',
      querySelectorAll = (\<lambda>sel. case sel of
          H1 \<Rightarrow> [js ''Wireless Earbuds X1'']
        | Div_price \<Rightarrow> [baht # js ''19.99'']
        | Span_review \<Rightarrow> [js ''No reviews yet.'']
        | _ \<Rightarrow> [])\<rparr>"

text \<open>Extracted fields that differ in the price only.\<close>

definition sample_data :: "jsnum option \<Rightarrow> productData" where
  "sample_data pr =
     \<lparr>pd_itemId = js ''456'', pd_shopId = js ''123'', pd_title = js ''Wireless Earbuds X1'',
      pd_price = pr, pd_originalPrice = None, pd_rating = Num 0, pd_reviewCount = Num 0,
      pd_soldCount = Num 0\<rparr>"

text \<open>
  Runs over the listing with a maximum of one product: in the first the store takes
  every row, in the second it rejects every insert; the others open the page without
  a title and the page without reviews, with a store that takes every row.
\<close>

definition cfg_one :: config where
  "cfg_one = \<lparr>supabase_configured = True, maxProducts = 1\<rparr>"

definition world_accept :: world where
  "world_accept =
     \<lparr>listing_of = web_c,
      product_page = (\<lambda>url. Some page_earbuds),
      clock = (\<lambda>i. 1700000000000 + i),
      db = (\<lambda>rows r. Inserted)\<rparr>"

definition world_reject :: world where
  "world_reject =
     \<lparr>listing_of = web_c,
      product_page = (\<lambda>url. Some page_earbuds),
      clock = (\<lambda>i. 1700000000000 + i),
      db = (\<lambda>rows r. Rejected (js ''duplicate key value violates unique constraint''))\<rparr>"

definition world_no_reviews :: world where
  "world_no_reviews =
     \<lparr>listing_of = web_c,
      product_page = (\<lambda>url. Some page_no_reviews),
      clock = (\<lambda>i. 1700000000000 + i),
      db = (\<lambda>rows r. Inserted)\<rparr>"

definition world_no_title :: world where
  "world_no_title =
     \<lparr>listing_of = web_c,
      product_page = (\<lambda>url. Some page_no_title),
      clock = (\<lambda>i. 1700000000000 + i),
      db = (\<lambda>rows r. Inserted)\<rparr>"

text \<open>A clock that reads the same millisecond at every call.\<close>

definition stalled_clock :: "nat \<Rightarrow> nat" where
  "stalled_clock i = 1700000000000"

definition earbuds_product :: ShopeeProduct where
  "earbuds_product =
     \<lparr>itemId = js ''456'', shopId = js ''123'', title = js ''Wireless Earbuds X1'',
      slug = js ''wireless-earbuds-x1-1700000000000'',
      price = Num 19.99, originalPrice = None, priceKrw = Some (Num 800),
      rating = Num 4.8, reviewCount = Num 1234, soldCount = Num 0,
      sourceUrl = earbuds_url\<rparr>"

definition earbuds_row :: ProductInsert where
  "earbuds_row =
     \<lparr>ins_title = js ''Wireless Earbuds X1'',
      ins_slug = js ''wireless-earbuds-x1-1700000000000'',
      original_price = Num 19.99, price_krw = Some (Num 800),
      source_url = earbuds_url,
      external_rating = Some (Num 4.8), external_review_count = Num 1234,
      purchase_count = Num 0, is_featured = False, is_active = True\<rparr>"

section \<open>Helper lemmas: evaluating the examples\<close>

lemmas char_eval = js_def is_digit_def is_space_def digit_dot_def digit_comma_def
  digit_comma_dot_def baht_def

lemmas text_eval = first_run_def price_match_def parseFloat_def remove_commas_def
  digits_val_def sold_match_def sold_unit_def trim_def

lemmas loop_eval = querySelector_def titleSelectors_def priceSelectors_def
  ratingSelectors_def reviewSelectors_def soldSelectors_def

lemmas link_eval = extractLinksFromPage_def set_spread_def is_product_link_def full_url_def
  ids_at_def is_digit_def js_def

lemma slug_earbuds:
  "createSlug ascii_lower 1700000000000 (js ''Wireless Earbuds X1'') =
     js ''wireless-earbuds-x1-1700000000000''"
  by (simp add: createSlug_def ascii_lower_def js_def slug_keep_def is_lower_latin_def
      is_digit_def is_hangul_def is_thai_def is_space_def hyphen_def discriminator_def
      digits_of.simps)

lemma ids_earbuds:
  "search_ids (js ''-i.'') 46 earbuds_url = Some (js ''123'', js ''456'')"
  by (simp add: earbuds_url_def ids_at_def js_def is_digit_def)

lemma eval_earbuds:
  "evaluate_page ascii_lower page_earbuds =
    \<lparr>pd_itemId = js ''456'', pd_shopId = js ''123'', pd_title = js ''Wireless Earbuds X1'',
      pd_price = Some (Num 19.99), pd_originalPrice = None, pd_rating = Num 4.8,
      pd_reviewCount = Num 1234, pd_soldCount = Num 0\<rparr>"
  by (simp add: evaluate_page_def location_ids_def page_earbuds_def ids_earbuds)
     (simp add: loop_eval text_eval char_eval js_ge_def js_gt_def ascii_lower_def)

lemma extract_earbuds:
  "extractProductDetails ascii_lower 1700000000000 earbuds_url (Some page_earbuds) =
     Some earbuds_product"
  by (simp add: extractProductDetails_def build_product_def eval_earbuds slug_earbuds
      earbuds_product_def num_or_def THB_TO_KRW_def)
     (simp add: js_def)

lemma log_throws_earbuds: "log_throws earbuds_product = False"
  by (simp add: log_throws_def earbuds_product_def)

lemma insert_earbuds: "product_insert earbuds_product = earbuds_row"
  by (simp add: product_insert_def earbuds_product_def earbuds_row_def num_or_def js_ge_def)

lemma eval_no_title:
  "pd_title (evaluate_page lower page_no_title) = []
   \<and> pd_itemId (evaluate_page lower page_no_title) = js ''456''
   \<and> pd_price (evaluate_page lower page_no_title) = Some (Num 199)"
  by (simp add: evaluate_page_def location_ids_def page_no_title_def ids_earbuds)
     (simp add: loop_eval text_eval char_eval js_ge_def js_gt_def)

lemma eval_zero_price:
  "pd_price (evaluate_page lower page_zero_price) = Some (Num 0)
   \<and> pd_title (evaluate_page lower page_zero_price) = js ''Wireless Earbuds X1''
   \<and> pd_itemId (evaluate_page lower page_zero_price) = js ''456''"
  by (simp add: evaluate_page_def location_ids_def page_zero_price_def ids_earbuds)
     (simp add: loop_eval text_eval char_eval js_gt_def)

lemma links_anchors_c:
  "extractLinksFromPage anchors_c =
     [earbuds_url,
      js ''https://shopee.co.th/Phone-Case-i.77.8901'',
      js ''https://shopee.co.th/Usb-Cable-i.5.66'']"
  by (simp add: anchors_c_def earbuds_url_def link_eval)

lemma links_anchors_d:
  "extractLinksFromPage anchors_d =
     [js ''https://shopee.co.th/Phone-Case-i.77.8901'',
      js ''https://shopee.co.th/Desk-Lamp-i.9.10'']"
  by (simp add: anchors_d_def link_eval)

lemma links_of_web_c:
  "links_of web_c (js ''https://shopee.co.th/search?keyword=electronics'')
     = extractLinksFromPage anchors_c"
  "links_of web_c (js ''https://shopee.co.th/search?keyword=phone'')
     = extractLinksFromPage anchors_d"
  "links_of web_c (js ''https://shopee.co.th/search?keyword=fashion'') = []"
  "links_of web_c (js ''https://shopee.co.th/search?keyword=beauty'') = []"
  "links_of web_c (js ''https://shopee.co.th/search?keyword=appliances'') = []"
  by (simp_all add: links_of_def web_c_def js_def)

lemma urls_ten:
  "getProductUrls web_c 10 =
     [earbuds_url,
      js ''https://shopee.co.th/Phone-Case-i.77.8901'',
      js ''https://shopee.co.th/Usb-Cable-i.5.66'',
      js ''https://shopee.co.th/Desk-Lamp-i.9.10'']"
  unfolding getProductUrls_def urlsToTry_def
  by (simp add: links_of_web_c links_anchors_c links_anchors_d Let_def slice0_def)
     (simp add: js_def earbuds_url_def)

lemma urls_few:
  "0 < m \<Longrightarrow> m \<le> 3 \<Longrightarrow>
   discover_loop web_c m urlsToTry [] =
     (extractLinksFromPage anchors_c, [js ''https://shopee.co.th/search?keyword=electronics''])"
  unfolding urlsToTry_def
  by (simp add: links_of_web_c links_anchors_c Let_def)

lemma urls_one: "getProductUrls web_c 1 = [earbuds_url]"
  by (simp add: getProductUrls_def urls_few links_anchors_c slice0_def)

lemma main_world_accept:
  "main ascii_lower cfg_one world_accept =
     Completed \<lparr>attempted = 1, succeeded = 1, stored = [earbuds_row]\<rparr>"
  by (simp add: main_def cfg_one_def world_accept_def urls_one extract_earbuds
      saveToSupabase_def insert_earbuds log_throws_earbuds)

lemma eval_no_reviews:
  "pd_title (evaluate_page ascii_lower page_no_reviews) = js ''Wireless Earbuds X1''
   \<and> pd_itemId (evaluate_page ascii_lower page_no_reviews) = js ''456''
   \<and> pd_reviewCount (evaluate_page ascii_lower page_no_reviews) = NaN
   \<and> pd_soldCount (evaluate_page ascii_lower page_no_reviews) = Num 0"
  by (simp add: evaluate_page_def location_ids_def page_no_reviews_def ids_earbuds)
     (simp add: loop_eval text_eval char_eval js_ge_def js_gt_def ascii_lower_def)

section \<open>The slug generator\<close>

lemma collapse_spaces_chars:
  "list_all slug_keep s \<Longrightarrow> list_all slug_char (collapse_spaces s)"
proof (induction s rule: collapse_spaces.induct)
  case 1
  then show ?case by simp
next
  case (2 c cs)
  show ?case
  proof (cases "is_space c")
    case True
    have "list_all slug_keep (dropWhile is_space cs)"
      using "2.prems" by (auto simp: list_all_iff dest: set_dropWhileD)
    with True "2.IH"(1) show ?thesis by (simp add: slug_char_def)
  next
    case False
    from "2.prems" have k: "slug_keep c" and r: "list_all slug_keep cs" by simp_all
    from k False have "slug_char c" by (simp add: slug_char_def slug_keep_def)
    with False r "2.IH"(2) show ?thesis by simp
  qed
qed

lemma digits_of_are_digits: "list_all is_digit (digits_of n)"
proof (induction n rule: digits_of.induct)
  case (1 n)
  show ?case
  proof (cases "n < 10")
    case True
    then show ?thesis by (subst digits_of.simps) (simp add: is_digit_def)
  next
    case False
    have "n mod 10 < 10" by simp
    then have "is_digit (48 + n mod 10)" unfolding is_digit_def by linarith
    with False "1.IH" show ?thesis by (subst digits_of.simps) simp
  qed
qed

lemma discriminator_chars: "list_all slug_char (discriminator now)"
  using digits_of_are_digits [of now]
  by (auto simp: discriminator_def slug_char_def list_all_iff)

lemma createSlug_chars: "list_all slug_char (createSlug lower now t)"
proof -
  have "list_all slug_keep (filter slug_keep (lower t))"
    by (simp add: list_all_iff)
  then have "list_all slug_char (collapse_spaces (filter slug_keep (lower t)))"
    by (rule collapse_spaces_chars)
  then have "list_all slug_char (take 80 (collapse_spaces (filter slug_keep (lower t))))"
    by (auto simp: list_all_iff dest: in_set_takeD)
  with discriminator_chars show ?thesis
    by (simp add: createSlug_def)
qed

text \<open>
  Claim C4. Whatever the title (empty or not) and whatever the case mapping, every
  character of the slug is a lowercase latin letter, a digit, a Hangul or Thai
  character or a hyphen, and the slug is at most 80 characters longer than the
  appended discriminator, the hyphen and the decimal clock reading.
\<close>

theorem createSlug_alphabet_and_length:
  "(\<forall>c \<in> set (createSlug lower now t). slug_char c) \<and>
   length (createSlug lower now t) \<le> 80 + length (discriminator now)"
  using createSlug_chars [of lower now t]
  by (simp add: list_all_iff createSlug_def)

text \<open>Claim C4 at the title of the specification's example.\<close>

theorem createSlug_alphabet_and_length_witness:
  "createSlug ascii_lower 1700000000000 (js ''Wireless Earbuds X1'')
     = js ''wireless-earbuds-x1-1700000000000''
   \<and> list_all slug_char (js ''wireless-earbuds-x1-1700000000000'')
   \<and> length (js ''wireless-earbuds-x1-1700000000000'')
       \<le> 80 + length (discriminator 1700000000000)"
  using createSlug_alphabet_and_length [of ascii_lower 1700000000000 "js ''Wireless Earbuds X1''"]
  unfolding slug_earbuds by (simp add: list_all_iff)

lemma digits_val_snoc: "digits_val (ds @ [d]) = 10 * digits_val ds + (d - 48)"
  by (simp add: digits_val_def)

lemma digits_val_digits_of: "digits_val (digits_of n) = n"
proof (induction n rule: digits_of.induct)
  case (1 n)
  show ?case
  proof (cases "n < 10")
    case True
    then show ?thesis by (subst digits_of.simps) (simp add: digits_val_def)
  next
    case False
    with "1.IH" show ?thesis
      by (subst digits_of.simps) (simp add: digits_val_snoc)
  qed
qed

lemma digits_of_inj: "digits_of a = digits_of b \<Longrightarrow> a = b"
  by (metis digits_val_digits_of)

text \<open>
  Claim C3, as amended. The discriminator is the clock reading, so two calls with the
  same title return the same slug exactly when the clock reads the same millisecond at
  both; they return distinct slugs exactly when the two readings differ.
\<close>

theorem createSlug_distinct_iff_clock:
  "(createSlug lower t1 t = createSlug lower t2 t) = (t1 = t2)"
  by (auto simp: createSlug_def discriminator_def dest: digits_of_inj)

text \<open>Claim C3, as amended, at two readings one millisecond apart.\<close>

theorem createSlug_distinct_iff_clock_witness:
  "createSlug ascii_lower 1700000000000 (js ''Wireless Earbuds X1'')
     \<noteq> createSlug ascii_lower 1700000000001 (js ''Wireless Earbuds X1'')"
  using createSlug_distinct_iff_clock
    [of ascii_lower 1700000000000 "js ''Wireless Earbuds X1''" 1700000000001]
  by simp

text \<open>
  Claim C3 as stated fails: when the clock has not ticked between two calls of a run
  (\<open>stalled_clock\<close> reads the same millisecond at its calls 0 and 1), both calls return
  the same slug for the same title.
\<close>

theorem createSlug_same_millisecond:
  "createSlug ascii_lower (stalled_clock 0) (js ''Wireless Earbuds X1'')
     = js ''wireless-earbuds-x1-1700000000000''
   \<and> createSlug ascii_lower (stalled_clock 1) (js ''Wireless Earbuds X1'')
     = js ''wireless-earbuds-x1-1700000000000''"
  by (simp add: stalled_clock_def slug_earbuds)

section \<open>The URL discoverer\<close>

lemma set_spread_step_distinct:
  "distinct acc \<Longrightarrow>
   distinct (foldl (\<lambda>acc u. if u \<in> set acc then acc else acc @ [u]) acc links)"
  by (induction links arbitrary: acc) auto

lemma distinct_set_spread: "distinct (set_spread links)"
  unfolding set_spread_def by (rule set_spread_step_distinct) simp

lemma distinct_links_of: "distinct (links_of web url)"
  by (simp add: links_of_def extractLinksFromPage_def distinct_set_spread split: option.split)

lemma discover_loop_distinct:
  "distinct acc \<Longrightarrow> distinct (fst (discover_loop web m es acc))"
proof (induction es arbitrary: acc)
  case Nil
  then show ?case by simp
next
  case (Cons e es)
  have "distinct (acc @ filter (\<lambda>u. u \<notin> set acc) (links_of web e))"
    using Cons.prems distinct_links_of [of web e] by auto
  then show ?case
    using Cons.IH Cons.prems by (simp add: Let_def)
qed

lemma distinct_slice0: "distinct xs \<Longrightarrow> distinct (slice0 xs e)"
  by (simp add: slice0_def)

text \<open>
  Claim C6. Whatever the listing pages hold and whatever the maximum, no address
  occurs twice in the list \<open>getProductUrls\<close> returns.
\<close>

theorem getProductUrls_distinct: "distinct (getProductUrls web m)"
  unfolding getProductUrls_def
  by (rule distinct_slice0, rule discover_loop_distinct) simp

text \<open>
  Claim C6 on the example listing: the product linked three times on the first page
  and the one linked on both pages each come out once.
\<close>

theorem getProductUrls_distinct_witness:
  "getProductUrls web_c 10 =
     [earbuds_url,
      js ''https://shopee.co.th/Phone-Case-i.77.8901'',
      js ''https://shopee.co.th/Usb-Cable-i.5.66'',
      js ''https://shopee.co.th/Desk-Lamp-i.9.10'']
   \<and> distinct (getProductUrls web_c 10)"
  using getProductUrls_distinct [of web_c 10] urls_ten by simp

lemma discover_loop_all:
  "int (length (fst (discover_loop web m es acc))) < m \<Longrightarrow>
   set (fst (discover_loop web m es acc)) = set acc \<union> (\<Union>e\<in>set es. set (links_of web e))"
proof (induction es arbitrary: acc)
  case Nil
  then show ?case by simp
next
  case (Cons e es)
  show ?case
  proof (cases "m \<le> int (length acc)")
    case True
    with Cons.prems show ?thesis by simp
  next
    case False
    let ?acc' = "acc @ filter (\<lambda>u. u \<notin> set acc) (links_of web e)"
    from False
    have eq: "fst (discover_loop web m (e # es) acc) = fst (discover_loop web m es ?acc')"
      by (simp add: Let_def)
    with Cons.prems have "int (length (fst (discover_loop web m es ?acc'))) < m" by simp
    then have "set (fst (discover_loop web m es ?acc'))
        = set ?acc' \<union> (\<Union>e\<in>set es. set (links_of web e))"
      by (rule Cons.IH)
    with eq show ?thesis by auto
  qed
qed

lemma discover_loop_reaches:
  assumes "m \<le> int (card (\<Union>e\<in>set es. set (links_of web e)))"
  shows "m \<le> int (length (fst (discover_loop web m es [])))"
proof (rule ccontr)
  let ?r = "fst (discover_loop web m es [])"
  assume "\<not> m \<le> int (length ?r)"
  then have lt: "int (length ?r) < m" by simp
  then have "set ?r = (\<Union>e\<in>set es. set (links_of web e))"
    using discover_loop_all [of web m es "[]"] by simp
  moreover have "distinct ?r" by (rule discover_loop_distinct) simp
  ultimately have "length ?r = card (\<Union>e\<in>set es. set (links_of web e))"
    by (metis distinct_card)
  with assms lt show False by simp
qed

lemma length_slice0_le: "0 \<le> e \<Longrightarrow> int (length (slice0 xs e)) \<le> e"
  by (simp add: slice0_def)

lemma length_slice0_eq:
  "0 \<le> e \<Longrightarrow> e \<le> int (length xs) \<Longrightarrow> int (length (slice0 xs e)) = e"
  by (simp add: slice0_def)

lemma discover_loop_stop:
  "m \<le> int (length (fst (discover_loop web m es1 acc))) \<Longrightarrow>
   discover_loop web m (es1 @ es2) acc = discover_loop web m es1 acc"
proof (induction es1 arbitrary: acc)
  case Nil
  then show ?case by (cases es2) simp_all
next
  case (Cons e es1)
  show ?case
  proof (cases "m \<le> int (length acc)")
    case True
    then show ?thesis by simp
  next
    case False
    let ?acc' = "acc @ filter (\<lambda>u. u \<notin> set acc) (links_of web e)"
    from False Cons.prems have "m \<le> int (length (fst (discover_loop web m es1 ?acc')))"
      by (simp add: Let_def)
    then have "discover_loop web m (es1 @ es2) ?acc' = discover_loop web m es1 ?acc'"
      by (rule Cons.IH)
    with False show ?thesis by (simp add: Let_def)
  qed
qed

lemma discover_loop_visited_prefix:
  "snd (discover_loop web m es acc) = take (length (snd (discover_loop web m es acc))) es"
  by (induction es arbitrary: acc) (simp_all add: Let_def)

lemma discover_loop_visited_length:
  "length (snd (discover_loop web m es acc)) \<le> length es"
  by (induction es arbitrary: acc) (simp_all add: Let_def)

text \<open>
  Claim C5. For a maximum that is not negative: \<open>getProductUrls\<close> returns at most
  \<open>maxProducts\<close> addresses; it returns exactly \<open>maxProducts\<close> when the entry points
  together link at least that many distinct product addresses; the entry points it
  visits are an initial part of the list; and when the running total after the first
  \<open>k\<close> entry points has reached \<open>maxProducts\<close>, at most those \<open>k\<close> are visited.
\<close>

theorem getProductUrls_cap:
  assumes "0 \<le> m"
  shows "int (length (getProductUrls web m)) \<le> m
    \<and> (m \<le> int (card (\<Union>e\<in>set urlsToTry. set (links_of web e)))
        \<longrightarrow> int (length (getProductUrls web m)) = m)
    \<and> visited_entries web m
        = take (length (visited_entries web m)) urlsToTry
    \<and> (\<forall>k. m \<le> int (running_total web m k)
        \<longrightarrow> length (visited_entries web m) \<le> k)"
proof (intro conjI impI allI)
  show "int (length (getProductUrls web m)) \<le> m"
    unfolding getProductUrls_def using assms by (rule length_slice0_le)
next
  assume "m \<le> int (card (\<Union>e\<in>set urlsToTry. set (links_of web e)))"
  then have "m \<le> int (length (fst (discover_loop web m urlsToTry [])))"
    by (rule discover_loop_reaches)
  with assms show "int (length (getProductUrls web m)) = m"
    unfolding getProductUrls_def by (rule length_slice0_eq)
next
  show "visited_entries web m
        = take (length (visited_entries web m)) urlsToTry"
    unfolding visited_entries_def by (rule discover_loop_visited_prefix)
next
  fix k
  assume "m \<le> int (running_total web m k)"
  then have "discover_loop web m (take k urlsToTry @ drop k urlsToTry) []
      = discover_loop web m (take k urlsToTry) []"
    unfolding running_total_def by (rule discover_loop_stop)
  then have "visited_entries web m
      = snd (discover_loop web m (take k urlsToTry) [])"
    by (simp add: visited_entries_def)
  moreover have "length (snd (discover_loop web m (take k urlsToTry) []))
      \<le> length (take k urlsToTry)"
    by (rule discover_loop_visited_length)
  ultimately show "length (visited_entries web m) \<le> k" by simp
qed

text \<open>
  Claim C5 on the example listing with a maximum of 2: the pages link four distinct
  products, the first page alone three, so two addresses are returned and only the
  first entry point is visited.
\<close>

theorem getProductUrls_cap_witness:
  "(0::int) \<le> 2
   \<and> (2::int) \<le> int (card (\<Union>e\<in>set urlsToTry. set (links_of web_c e)))
   \<and> int (length (getProductUrls web_c 2)) = 2
   \<and> (2::int) \<le> int (running_total web_c 2 1)
   \<and> length (visited_entries web_c 2) \<le> 1"
proof -
  have h0: "(0::int) \<le> 2" by simp
  have "distinct (extractLinksFromPage anchors_c)"
    by (simp add: extractLinksFromPage_def distinct_set_spread)
  then have "card (set (extractLinksFromPage anchors_c)) = length (extractLinksFromPage anchors_c)"
    by (rule distinct_card)
  then have c3: "card (set (extractLinksFromPage anchors_c)) = 3"
    by (simp add: links_anchors_c)
  have "set (extractLinksFromPage anchors_c) \<subseteq> (\<Union>e\<in>set urlsToTry. set (links_of web_c e))"
    by (simp add: urlsToTry_def links_of_web_c)
  then have "card (set (extractLinksFromPage anchors_c))
      \<le> card (\<Union>e\<in>set urlsToTry. set (links_of web_c e))"
    by (rule card_mono [rotated]) simp
  with c3 have hc: "(2::int) \<le> int (card (\<Union>e\<in>set urlsToTry. set (links_of web_c e)))"
    by simp
  have t1: "take (Suc 0) urlsToTry = [js ''https://shopee.co.th/search?keyword=electronics'']"
    by (simp add: urlsToTry_def)
  have hr: "(2::int) \<le> int (running_total web_c 2 1)"
    by (simp add: running_total_def t1 links_of_web_c links_anchors_c Let_def)
  from getProductUrls_cap [OF h0, of web_c] hc hr
  have "int (length (getProductUrls web_c 2)) = 2 \<and> length (visited_entries web_c 2) \<le> 1"
    by blast
  with h0 hc hr show ?thesis by blast
qed

section \<open>The product pipeline and the catalog writer\<close>

lemma build_product_None_iff:
  "(build_product lower now url pd = None) = (pd_title pd = [] \<or> pd_itemId pd = [])"
  by (simp add: build_product_def)

text \<open>
  The part of claim C7 that holds. For a page that loaded, \<open>extractProductDetails\<close>
  returns no product exactly when the extracted title or the extracted item id is
  empty, whatever the other fields hold; and for such an item the run's loop writes no
  row, leaves the success counter as it is, and goes on with the next address.
\<close>

lemma discard_rule:
  "((extractProductDetails lower now url (Some pg) = None)
      = (pd_title (evaluate_page lower pg) = [] \<or> pd_itemId (evaluate_page lower pg) = []))
   \<and> (product_page w url = Some pg
        \<longrightarrow> (pd_title (evaluate_page lower pg) = [] \<or> pd_itemId (evaluate_page lower pg) = [])
        \<longrightarrow> crawl_items lower w i (url # urls) (rows, n)
             = crawl_items lower w (Suc i) urls (rows, n))"
proof (intro conjI impI)
  show "(extractProductDetails lower now url (Some pg) = None)
      = (pd_title (evaluate_page lower pg) = [] \<or> pd_itemId (evaluate_page lower pg) = [])"
    by (simp add: extractProductDetails_def build_product_None_iff)
next
  assume pg: "product_page w url = Some pg"
    and e: "pd_title (evaluate_page lower pg) = [] \<or> pd_itemId (evaluate_page lower pg) = []"
  from e have "build_product lower (clock w i) url (evaluate_page lower pg) = None"
    by (simp add: build_product_None_iff)
  with pg show "crawl_items lower w i (url # urls) (rows, n)
      = crawl_items lower w (Suc i) urls (rows, n)"
    by (simp add: extractProductDetails_def)
qed

text \<open>
  On a page with a price of 199 baht, an item id and no title: no product, and the
  loop over this one address ends with no row and a counter of 0.
\<close>

lemma discard_rule_example:
  "product_page world_no_title earbuds_url = Some page_no_title
   \<and> pd_title (evaluate_page ascii_lower page_no_title) = []
   \<and> pd_price (evaluate_page ascii_lower page_no_title) = Some (Num 199)
   \<and> extractProductDetails ascii_lower 1700000000000 earbuds_url (Some page_no_title) = None
   \<and> crawl_items ascii_lower world_no_title 0 [earbuds_url] ([], 0) = ([], 0)"
proof -
  have pg: "product_page world_no_title earbuds_url = Some page_no_title"
    by (simp add: world_no_title_def)
  have t: "pd_title (evaluate_page ascii_lower page_no_title) = []"
    and pr: "pd_price (evaluate_page ascii_lower page_no_title) = Some (Num 199)"
    using eval_no_title [of ascii_lower] by simp_all
  note d = discard_rule [of ascii_lower 1700000000000 earbuds_url page_no_title
      world_no_title 0 "[]" "[]" 0]
  from d t
  have "extractProductDetails ascii_lower 1700000000000 earbuds_url (Some page_no_title) = None"
    by simp
  moreover from d pg t
  have "crawl_items ascii_lower world_no_title 0 [earbuds_url] ([], 0) = ([], 0)"
    by simp
  ultimately show ?thesis using pg t pr by simp
qed

text \<open>
  Claim C7 fails on the code. The page with a title, an item id, a price and the
  review text \<^verbatim>\<open>No reviews yet.\<close> gives a product: the title and the item id are not
  empty. Its review count did not parse and arrives as \<^verbatim>\<open>null\<close>, the progress line
  that prints it throws, and the run, whose store would take every row, completes
  with 1 attempted, 0 succeeded and no row written.
\<close>

theorem unparsed_count_dropped:
  "pd_title (evaluate_page ascii_lower page_no_reviews) = js ''Wireless Earbuds X1''
   \<and> pd_itemId (evaluate_page ascii_lower page_no_reviews) = js ''456''
   \<and> map_option reviewCount
       (extractProductDetails ascii_lower 1700000000000 earbuds_url (Some page_no_reviews))
     = Some NaN
   \<and> main ascii_lower cfg_one world_no_reviews
     = Completed \<lparr>attempted = 1, succeeded = 0, stored = []\<rparr>"
proof -
  note e = eval_no_reviews
  obtain p where p: "extractProductDetails ascii_lower 1700000000000 earbuds_url
      (Some page_no_reviews) = Some p" and rc: "reviewCount p = NaN"
    using e by (simp add: extractProductDetails_def build_product_def js_def)
  then have "log_throws p" by (simp add: log_throws_def)
  with p have "crawl_items ascii_lower world_no_reviews 0 [earbuds_url] ([], 0) = ([], 0)"
    by (simp add: world_no_reviews_def)
  moreover
  have "getProductUrls (listing_of world_no_reviews) (maxProducts cfg_one) = [earbuds_url]"
    by (simp add: world_no_reviews_def cfg_one_def urls_one)
  ultimately have "main ascii_lower cfg_one world_no_reviews
     = Completed \<lparr>attempted = 1, succeeded = 0, stored = []\<rparr>"
    by (simp add: main_def cfg_one_def)
  with e p rc show ?thesis by simp
qed

lemma crawl_items_count:
  "crawl_items lower w i urls (rows, n) = (rows', n') \<Longrightarrow>
   n' + length rows = n + length rows' \<and> n' \<le> n + length urls \<and> n \<le> n'"
proof (induction urls arbitrary: i rows n)
  case Nil
  then show ?case by simp
next
  case (Cons url urls)
  show ?case
  proof (cases "extractProductDetails lower (clock w i) url (product_page w url)")
    case None
    with Cons.prems have "crawl_items lower w (Suc i) urls (rows, n) = (rows', n')" by simp
    from Cons.IH [OF this] show ?thesis by simp
  next
    case (Some p)
    show ?thesis
    proof (cases "log_throws p")
      case True
      with Some Cons.prems have "crawl_items lower w (Suc i) urls (rows, n) = (rows', n')"
        by simp
      from Cons.IH [OF this] show ?thesis by simp
    next
      case no_throw: False
      show ?thesis
      proof (cases "db w rows (product_insert p) = Inserted")
        case True
        with Some no_throw Cons.prems
        have "crawl_items lower w (Suc i) urls (rows @ [product_insert p], n + 1) = (rows', n')"
          by (simp add: saveToSupabase_def)
        from Cons.IH [OF this] show ?thesis by simp
      next
        case False
        then have "saveToSupabase (db w) rows p = (False, rows)"
          by (cases "db w rows (product_insert p)") (simp_all add: saveToSupabase_def)
        with Some no_throw Cons.prems
        have "crawl_items lower w (Suc i) urls (rows, n) = (rows', n')"
          by simp
        from Cons.IH [OF this] show ?thesis by simp
      qed
    qed
  qed
qed

lemma main_Completed:
  "main lower cfg w = Completed rep \<Longrightarrow>
   attempted rep = length (getProductUrls (listing_of w) (maxProducts cfg))
   \<and> stored rep
       = fst (crawl_items lower w 0 (getProductUrls (listing_of w) (maxProducts cfg)) ([], 0))
   \<and> succeeded rep
       = snd (crawl_items lower w 0 (getProductUrls (listing_of w) (maxProducts cfg)) ([], 0))"
  by (auto simp: main_def Let_def split: if_splits prod.splits)

lemma main_completes:
  assumes "supabase_configured cfg"
    and "getProductUrls (listing_of w) (maxProducts cfg) \<noteq> []"
  shows "\<exists>rep. main lower cfg w = Completed rep
      \<and> attempted rep = length (getProductUrls (listing_of w) (maxProducts cfg))
      \<and> succeeded rep = length (stored rep) \<and> succeeded rep \<le> attempted rep"
proof -
  let ?urls = "getProductUrls (listing_of w) (maxProducts cfg)"
  obtain rows n where c: "crawl_items lower w 0 ?urls ([], 0) = (rows, n)"
    by (cases "crawl_items lower w 0 ?urls ([], 0)")
  from crawl_items_count [OF c] have "n = length rows" "n \<le> length ?urls" by simp_all
  moreover from assms c
  have "main lower cfg w = Completed \<lparr>attempted = length ?urls, succeeded = n, stored = rows\<rparr>"
    by (simp add: main_def Let_def)
  ultimately show ?thesis by simp
qed

text \<open>
  Claim C8. When the store answers the insert of an item's row with an error,
  \<open>saveToSupabase\<close> returns false and the store's rows are as before; the loop goes on
  to the next address (item \<open>i + 1\<close>) with the success counter unchanged; and a
  configured run over at least one address completes with a report whose attempted
  count is the number of addresses and whose succeeded count is the number of rows the
  store took.
\<close>

theorem rejected_insert_counted:
  assumes "extractProductDetails lower (clock w i) url (product_page w url) = Some p"
    and "db w rows (product_insert p) = Rejected msg"
  shows "saveToSupabase (db w) rows p = (False, rows)
    \<and> crawl_items lower w i (url # urls) (rows, n) = crawl_items lower w (Suc i) urls (rows, n)
    \<and> (supabase_configured cfg \<and> getProductUrls (listing_of w) (maxProducts cfg) \<noteq> []
        \<longrightarrow> (\<exists>rep. main lower cfg w = Completed rep
              \<and> attempted rep = length (getProductUrls (listing_of w) (maxProducts cfg))
              \<and> succeeded rep = length (stored rep)
              \<and> succeeded rep \<le> attempted rep))"
proof -
  from assms(2) have s: "saveToSupabase (db w) rows p = (False, rows)"
    by (simp add: saveToSupabase_def)
  with assms(1)
  have "crawl_items lower w i (url # urls) (rows, n) = crawl_items lower w (Suc i) urls (rows, n)"
    by simp
  with s main_completes [of cfg w lower] show ?thesis by blast
qed

text \<open>
  Claim C8 on the run whose store rejects every insert: one address, one product
  extracted, the insert rejected, and the run completes with 1 attempted, 0 succeeded.
\<close>

theorem rejected_insert_counted_witness:
  "extractProductDetails ascii_lower (clock world_reject 0) earbuds_url
       (product_page world_reject earbuds_url) = Some earbuds_product
   \<and> db world_reject [] (product_insert earbuds_product)
       = Rejected (js ''duplicate key value violates unique constraint'')
   \<and> saveToSupabase (db world_reject) [] earbuds_product = (False, [])
   \<and> main ascii_lower cfg_one world_reject
       = Completed \<lparr>attempted = 1, succeeded = 0, stored = []\<rparr>"
proof -
  have e: "extractProductDetails ascii_lower (clock world_reject 0) earbuds_url
       (product_page world_reject earbuds_url) = Some earbuds_product"
    by (simp add: world_reject_def extract_earbuds)
  have r: "db world_reject [] (product_insert earbuds_product)
       = Rejected (js ''duplicate key value violates unique constraint'')"
    by (simp add: world_reject_def)
  note c = rejected_insert_counted [OF e r, of "[]" 0 cfg_one]
  from c have s: "saveToSupabase (db world_reject) [] earbuds_product = (False, [])"
    by simp
  from c have "crawl_items ascii_lower world_reject 0 [earbuds_url] ([], 0) = ([], 0)"
    by simp
  moreover have "getProductUrls (listing_of world_reject) (maxProducts cfg_one) = [earbuds_url]"
    by (simp add: world_reject_def cfg_one_def urls_one)
  ultimately have "main ascii_lower cfg_one world_reject
       = Completed \<lparr>attempted = 1, succeeded = 0, stored = []\<rparr>"
    by (simp add: main_def cfg_one_def)
  with e r s show ?thesis by simp
qed

lemma crawl_items_rows:
  assumes "\<And>i url p. extractProductDetails lower (clock w i) url (product_page w url) = Some p
      \<Longrightarrow> Q (product_insert p)"
  shows "list_all Q rows \<Longrightarrow> list_all Q (fst (crawl_items lower w i urls (rows, n)))"
proof (induction urls arbitrary: i rows n)
  case Nil
  then show ?case by simp
next
  case (Cons url urls)
  show ?case
  proof (cases "extractProductDetails lower (clock w i) url (product_page w url)")
    case None
    with Cons show ?thesis by simp
  next
    case (Some p)
    then have q: "Q (product_insert p)" by (rule assms)
    show ?thesis
    proof (cases "log_throws p")
      case True
      with Some Cons show ?thesis by simp
    next
      case no_throw: False
      show ?thesis
      proof (cases "db w rows (product_insert p)")
        case Inserted
        from Cons.prems q have "list_all Q (rows @ [product_insert p])" by simp
        from Cons.IH [OF this] Some no_throw Inserted show ?thesis
          by (simp add: saveToSupabase_def)
      next
        case (Rejected msg)
        with Some no_throw Cons show ?thesis by (simp add: saveToSupabase_def)
      next
        case Threw
        with Some no_throw Cons show ?thesis by (simp add: saveToSupabase_def)
      qed
    qed
  qed
qed

text \<open>
  Claim C1, as amended. Every row a completed run has stored is the row of a product
  that \<open>extractProductDetails\<close> returned for some address of the run, and its
  \<open>is_featured\<close> flag is true exactly when that product's rating is at least 4.5 and its
  sold count (not its review count) is at least 1000.
\<close>

theorem featured_rule:
  assumes "main lower cfg w = Completed rep"
    and "r \<in> set (stored rep)"
  shows "\<exists>i url p. extractProductDetails lower (clock w i) url (product_page w url) = Some p
      \<and> r = product_insert p
      \<and> is_featured r = (js_ge (rating p) (Num 4.5) \<and> js_ge (soldCount p) (Num 1000))"
proof -
  let ?Q = "\<lambda>r. \<exists>i url p.
        extractProductDetails lower (clock w i) url (product_page w url) = Some p
      \<and> r = product_insert p
      \<and> is_featured r = (js_ge (rating p) (Num 4.5) \<and> js_ge (soldCount p) (Num 1000))"
  have step: "\<And>i url p.
      extractProductDetails lower (clock w i) url (product_page w url) = Some p
      \<Longrightarrow> ?Q (product_insert p)"
  proof -
    fix i url p
    assume e: "extractProductDetails lower (clock w i) url (product_page w url) = Some p"
    have "is_featured (product_insert p)
        = (js_ge (rating p) (Num 4.5) \<and> js_ge (soldCount p) (Num 1000))"
      by (simp add: product_insert_def)
    with e show "?Q (product_insert p)" by blast
  qed
  have "list_all ?Q
      (fst (crawl_items lower w 0 (getProductUrls (listing_of w) (maxProducts cfg)) ([], 0)))"
    by (rule crawl_items_rows [where Q = ?Q, OF step]) simp_all
  with main_Completed [OF assms(1)] have "list_all ?Q (stored rep)" by simp
  with assms(2) show ?thesis by (simp add: list_all_iff)
qed

text \<open>Claim C1, as amended, on the run whose store takes every row.\<close>

theorem featured_rule_witness:
  "main ascii_lower cfg_one world_accept
     = Completed \<lparr>attempted = 1, succeeded = 1, stored = [earbuds_row]\<rparr>
   \<and> earbuds_row \<in> set (stored \<lparr>attempted = 1, succeeded = 1, stored = [earbuds_row]\<rparr>)
   \<and> (\<exists>i url p.
        extractProductDetails ascii_lower (clock world_accept i) url
            (product_page world_accept url) = Some p
      \<and> earbuds_row = product_insert p
      \<and> is_featured earbuds_row
          = (js_ge (rating p) (Num 4.5) \<and> js_ge (soldCount p) (Num 1000)))"
proof -
  have m: "main ascii_lower cfg_one world_accept
     = Completed \<lparr>attempted = 1, succeeded = 1, stored = [earbuds_row]\<rparr>"
    by (rule main_world_accept)
  have r: "earbuds_row \<in> set (stored \<lparr>attempted = 1, succeeded = 1, stored = [earbuds_row]\<rparr>)"
    by simp
  from featured_rule [OF m r] m r show ?thesis by blast
qed

text \<open>
  Claim C1 as stated fails: the run over the page with the rating text
  \<^verbatim>\<open>4.8 out of 5\<close>, the review text \<^verbatim>\<open>1,234 ratings\<close> and no sold count stores one
  row, with rating 4.8 and review count 1234, whose \<open>is_featured\<close> flag is false.
\<close>

theorem featured_needs_sold_count:
  "main ascii_lower cfg_one world_accept
     = Completed \<lparr>attempted = 1, succeeded = 1, stored = [product_insert earbuds_product]\<rparr>
   \<and> rating earbuds_product = Num 4.8
   \<and> reviewCount earbuds_product = Num 1234
   \<and> soldCount earbuds_product = Num 0
   \<and> external_rating (product_insert earbuds_product) = Some (Num 4.8)
   \<and> external_review_count (product_insert earbuds_product) = Num 1234
   \<and> is_featured (product_insert earbuds_product) = False"
  by (simp add: main_world_accept insert_earbuds)
     (simp add: earbuds_product_def earbuds_row_def)

text \<open>
  Claim C2, as amended. Building the product never fails on the price. An absent
  price, a price that did not parse and a price of 0 are treated alike: the converted
  price is absent and the stored source price is 0. For any other price \<open>x\<close> the
  converted price is \<open>x\<close> times 40, rounded to the nearest integer, and the stored
  source price is \<open>x\<close>.
\<close>

theorem price_conversion:
  assumes "build_product lower now url pd = Some p"
  shows "(pd_price pd = None \<longrightarrow> priceKrw p = None \<and> price p = Num 0)
    \<and> (pd_price pd = Some NaN \<longrightarrow> priceKrw p = None \<and> price p = Num 0)
    \<and> (pd_price pd = Some (Num 0) \<longrightarrow> priceKrw p = None \<and> price p = Num 0)
    \<and> (\<forall>x. x \<noteq> 0 \<longrightarrow> pd_price pd = Some (Num x)
          \<longrightarrow> priceKrw p = Some (Num (of_int \<lfloor>x * 40 + 1 / 2\<rfloor>)) \<and> price p = Num x)"
  using assms
  by (auto simp: build_product_def num_or_def THB_TO_KRW_def split: if_splits)

text \<open>
  Claim C2, as amended, at four extracted prices: 100 baht becomes 4000, and a price
  of 0, an absent price and an unparsed price all give no converted price.
\<close>

theorem price_conversion_witness:
  "map_option priceKrw
      (build_product ascii_lower 1700000000000 earbuds_url (sample_data (Some (Num 100))))
     = Some (Some (Num 4000))
   \<and> map_option price
      (build_product ascii_lower 1700000000000 earbuds_url (sample_data (Some (Num 100))))
     = Some (Num 100)
   \<and> map_option priceKrw
      (build_product ascii_lower 1700000000000 earbuds_url (sample_data (Some (Num 0))))
     = Some None
   \<and> map_option priceKrw
      (build_product ascii_lower 1700000000000 earbuds_url (sample_data None))
     = Some None
   \<and> map_option priceKrw
      (build_product ascii_lower 1700000000000 earbuds_url (sample_data (Some NaN)))
     = Some None"
proof -
  have ex: "\<And>pr. \<exists>p. build_product ascii_lower 1700000000000 earbuds_url (sample_data pr) = Some p"
    by (simp add: build_product_def sample_data_def js_def)
  have pp: "\<And>pr. pd_price (sample_data pr) = pr"
    by (simp add: sample_data_def)
  obtain p1 where b1: "build_product ascii_lower 1700000000000 earbuds_url
      (sample_data (Some (Num 100))) = Some p1"
    using ex by blast
  obtain p2 where b2: "build_product ascii_lower 1700000000000 earbuds_url
      (sample_data (Some (Num 0))) = Some p2"
    using ex by blast
  obtain p3 where b3: "build_product ascii_lower 1700000000000 earbuds_url
      (sample_data None) = Some p3"
    using ex by blast
  obtain p4 where b4: "build_product ascii_lower 1700000000000 earbuds_url
      (sample_data (Some NaN)) = Some p4"
    using ex by blast
  from price_conversion [OF b1] have "priceKrw p1 = Some (Num 4000) \<and> price p1 = Num 100"
    by (simp add: pp)
  moreover from price_conversion [OF b2] have "priceKrw p2 = None" by (simp add: pp)
  moreover from price_conversion [OF b3] have "priceKrw p3 = None" by (simp add: pp)
  moreover from price_conversion [OF b4] have "priceKrw p4 = None" by (simp add: pp)
  ultimately show ?thesis by (simp add: b1 b2 b3 b4)
qed

text \<open>
  Claim C2 as stated fails: on the page whose price element reads 0 baht the extracted
  price is the number 0, not \<^verbatim>\<open>null\<close>, and the product's converted price is absent,
  not 0.
\<close>

theorem zero_price_not_converted:
  "pd_price (evaluate_page ascii_lower page_zero_price) = Some (Num 0)
   \<and> map_option priceKrw
       (extractProductDetails ascii_lower 1700000000000 earbuds_url (Some page_zero_price))
     = Some None
   \<and> map_option price
       (extractProductDetails ascii_lower 1700000000000 earbuds_url (Some page_zero_price))
     = Some (Num 0)"
  by (simp add: extractProductDetails_def build_product_def eval_zero_price num_or_def js_def)

section \<open>The field extractor\<close>

lemma parseFloat_shape: "parseFloat s = NaN \<or> (\<exists>x. 0 \<le> x \<and> parseFloat s = Num x)"
  by (simp add: parseFloat_def Let_def)

lemma Math_round_shape:
  assumes "0 \<le> x"
  shows "\<exists>k::nat. Math_round (Num x) = Num (real k)"
proof -
  from assms have "0 \<le> \<lfloor>x + 1 / 2\<rfloor>" by simp
  then have "real_of_int \<lfloor>x + 1 / 2\<rfloor> = real (nat \<lfloor>x + 1 / 2\<rfloor>)" by simp
  then show ?thesis by auto
qed

lemma count_shape:
  "Math_round (if b then js_times (parseFloat s) 1000 else parseFloat s) = NaN
   \<or> (\<exists>k::nat. Math_round (if b then js_times (parseFloat s) 1000 else parseFloat s)
        = Num (real k))"
proof (cases "parseFloat s")
  case NaN
  then show ?thesis by simp
next
  case (Num x)
  with parseFloat_shape [of s] have "0 \<le> x" by simp
  then have "0 \<le> x * 1000" by simp
  with \<open>0 \<le> x\<close> Num Math_round_shape [of x] Math_round_shape [of "x * 1000"]
  show ?thesis by (cases b) auto
qed

text \<open>
  The review count of every page is \<open>NaN\<close> or a natural number: the part of claim C9
  about the review count holds up to the texts whose run of digits, commas and dots
  has no digit to parse.
\<close>

lemma review_loop_shape:
  "rc = NaN \<or> (\<exists>k::nat. rc = Num (real k)) \<Longrightarrow>
   review_loop lower pg sels rc = NaN
   \<or> (\<exists>k::nat. review_loop lower pg sels rc = Num (real k))"
proof (induction sels arbitrary: rc)
  case Nil
  then show ?case by simp
next
  case (Cons sel sels)
  show ?case
  proof (cases "querySelector pg sel")
    case None
    with Cons show ?thesis by simp
  next
    case (Some t)
    show ?thesis
    proof (cases "first_run digit_comma_dot t")
      case None
      with Some Cons show ?thesis by simp
    next
      case (Some m)
      let ?rc = "Math_round (if js_includes (lower t) [107]
          then js_times (parseFloat (remove_commas m)) 1000
          else parseFloat (remove_commas m))"
      have sh: "?rc = NaN \<or> (\<exists>k::nat. ?rc = Num (real k))"
        by (rule count_shape)
      then have "review_loop lower pg sels ?rc = NaN
          \<or> (\<exists>k::nat. review_loop lower pg sels ?rc = Num (real k))"
        by (rule Cons.IH)
      with sh Some \<open>querySelector pg sel = Some t\<close> show ?thesis
        by (simp add: Let_def)
    qed
  qed
qed

text \<open>
  Claim C9 fails on the code. On the page whose first rating selector finds the text
  \<^verbatim>\<open>100 ratings\<close> and whose other rating selectors find nothing, the parsed 100 is
  assigned before the range test, the loop runs out of selectors, and the record's
  rating is 100.
\<close>

theorem rating_out_of_range:
  "pd_rating (evaluate_page ascii_lower page_rating_100) = Num 100
   \<and> map_option rating
       (extractProductDetails ascii_lower 1700000000000 earbuds_url (Some page_rating_100))
     = Some (Num 100)
   \<and> js_le (Num 100) (Num 5) = False"
proof -
  have "pd_rating (evaluate_page ascii_lower page_rating_100) = Num 100
      \<and> pd_title (evaluate_page ascii_lower page_rating_100) = js ''Wireless Earbuds X1''
      \<and> pd_itemId (evaluate_page ascii_lower page_rating_100) = js ''456''"
    by (simp add: evaluate_page_def location_ids_def page_rating_100_def ids_earbuds)
       (simp add: loop_eval text_eval char_eval js_ge_def)
  then show ?thesis
    by (simp add: extractProductDetails_def build_product_def js_def)
qed

text \<open>
  As long as no price text parses to 0, the price loop keeps what claim C10 says: an
  original price is only ever set together with a smaller price.
\<close>

lemma price_step_ok:
  "price_ok st \<Longrightarrow> parses_nonzero t \<Longrightarrow> price_ok (price_step st t)"
proof (cases "price_match t")
  case None
  assume "price_ok st"
  with None show ?thesis by (cases st) simp
next
  case (Some m)
  assume ok: "price_ok st" and nz: "parses_nonzero t"
  obtain pr orig where st: "st = (pr, orig)" by (cases st)
  from nz Some have v: "parseFloat (remove_commas m) \<noteq> Num 0"
    by (simp add: parses_nonzero_def)
  show ?thesis
  proof (cases "parseFloat (remove_commas m)")
    case NaN
    with ok st Some show ?thesis
      by (cases "(pr, orig)" rule: price_ok.cases) (simp_all add: js_gt_def Let_def)
  next
    case (Num z)
    with v have "z \<noteq> 0" by simp
    with ok st Some Num show ?thesis
      by (cases "(pr, orig)" rule: price_ok.cases) (auto simp: js_gt_def Let_def)
  qed
qed

lemma price_fold_ok:
  "price_ok st \<Longrightarrow> list_all parses_nonzero ts \<Longrightarrow> price_ok (foldl price_step st ts)"
  by (induction ts arbitrary: st) (simp_all add: price_step_ok)

lemma price_loop_ok:
  "price_ok st \<Longrightarrow> list_all (\<lambda>sel. list_all parses_nonzero (querySelectorAll pg sel)) sels
   \<Longrightarrow> price_ok (price_loop pg sels st)"
  by (induction sels arbitrary: st)
     (simp_all add: Let_def price_fold_ok)

text \<open>
  Claim C10 fails on the code. On the page with the price texts 150, 0 and 199 baht,
  the 0 replaces the price 150 and makes it the original price; 0 is falsy, so the
  199 that follows replaces the price and leaves the original price at 150: the
  record's price is above its original price.
\<close>

theorem price_above_original:
  "pd_price (evaluate_page ascii_lower page_three_prices) = Some (Num 199)
   \<and> pd_originalPrice (evaluate_page ascii_lower page_three_prices) = Some (Num 150)
   \<and> js_lt (Num 199) (Num 150) = False"
  by (simp add: evaluate_page_def page_three_prices_def loop_eval text_eval char_eval
      js_gt_def)

end
